theory Spec2Isabelle
  imports Main "HOL-Library.AList"
begin

section \<open>Strings\<close>

text \<open>
  Python strings are modelled as \<open>string\<close>. \<open>lower\<close> is \<open>str.lower()\<close> on ASCII
  letters; other characters are left as they are. \<open>contains s p\<close> is Python's
  \<open>p in s\<close> on strings.
\<close>

definition lower_char :: "char \<Rightarrow> char" where
  "lower_char c =
     (case map_of (zip ''ABCDEFGHIJKLMNOPQRSTUVWXYZ'' ''abcdefghijklmnopqrstuvwxyz'') c of
        None \<Rightarrow> c
      | Some l \<Rightarrow> l)"

definition lower :: "string \<Rightarrow> string" where
  "lower s = map lower_char s"

fun starts_with :: "string \<Rightarrow> string \<Rightarrow> bool" where
  "starts_with s [] = True"
| "starts_with [] (p # ps) = False"
| "starts_with (c # cs) (p # ps) = (c = p \<and> starts_with cs ps)"


section \<open>Utils/Agents.py\<close>

subsection \<open>The prompt table\<close>

text \<open>
  \<open>PROMPTS\<close> is a dict from lowercase role names to prompt texts. The texts are data
  handed to the remote model and are named here by a constructor each; the keys
  are the source's.
\<close>

datatype prompt =
    Cardiologist_prompt
  | Psychologist_prompt
  | Pulmonologist_prompt
  | Multidisciplinary_team_prompt

definition PROMPTS :: "(string \<times> prompt) list" where
  "PROMPTS =
     [(''cardiologist'', Cardiologist_prompt),
      (''psychologist'', Psychologist_prompt),
      (''pulmonologist'', Pulmonologist_prompt),
      (''multidisciplinary_team'', Multidisciplinary_team_prompt)]"

subsection \<open>Exceptions and remote calls\<close>

datatype exn =
    KeyError string
  | FileNotFoundError
  | OSError string
  | ValidationError
  | RemoteError string

text \<open>
  A call to the remote model returns a value, raises (the string is \<open>str(e)\<close> of
  the exception), or never returns.
\<close>

datatype 'a call = Returns 'a | Raises string | Hangs

subsection \<open>The output schema\<close>

record HealthIssue =
  diagnosis :: string
  rationale :: string
  is_primary :: bool

record FinalAnalysis =
  analysis :: "HealthIssue list"

text \<open>
  The parser decodes the text of the response and hands the decoded object to
  \<open>FinalAnalysis\<close>. The decoded response is seen here through the declared fields:
  for each entry, each of the three fields is either present with a value of its
  declared type (\<open>Some\<close>) or not (\<open>None\<close>); the \<open>analysis\<close> field is missing, is
  not a list, or is a list of entries. A response that cannot be decoded at all
  is an exception of the call (\<open>Raises\<close>).
\<close>

record raw_issue =
  raw_diagnosis :: "string option"
  raw_rationale :: "string option"
  raw_is_primary :: "bool option"

datatype raw_analysis = Missing | NotAList | Items "raw_issue list"

text \<open>
  \<open>HealthIssue\<close> declares three required fields and nothing else; \<open>FinalAnalysis\<close>
  declares one required field, a list of \<open>HealthIssue\<close>. Neither class declares
  a validator or a length constraint.
\<close>

definition HealthIssue_validate :: "raw_issue \<Rightarrow> exn + HealthIssue" where
  "HealthIssue_validate r =
     (case raw_diagnosis r of
        None \<Rightarrow> Inl ValidationError
      | Some d \<Rightarrow>
          (case raw_rationale r of
             None \<Rightarrow> Inl ValidationError
           | Some ra \<Rightarrow>
               (case raw_is_primary r of
                  None \<Rightarrow> Inl ValidationError
                | Some p \<Rightarrow> Inr \<lparr>diagnosis = d, rationale = ra, is_primary = p\<rparr>)))"

fun validate_items :: "raw_issue list \<Rightarrow> exn + HealthIssue list" where
  "validate_items [] = Inr []"
| "validate_items (r # rs) =
     (case HealthIssue_validate r of
        Inl e \<Rightarrow> Inl e
      | Inr h \<Rightarrow>
          (case validate_items rs of
             Inl e \<Rightarrow> Inl e
           | Inr hs \<Rightarrow> Inr (h # hs)))"

definition FinalAnalysis_parse :: "raw_analysis \<Rightarrow> exn + FinalAnalysis" where
  "FinalAnalysis_parse raw =
     (case raw of
        Missing \<Rightarrow> Inl ValidationError
      | NotAList \<Rightarrow> Inl ValidationError
      | Items rs \<Rightarrow>
          (case validate_items rs of
             Inl e \<Rightarrow> Inl e
           | Inr hs \<Rightarrow> Inr \<lparr>analysis = hs\<rparr>))"

subsection \<open>Agent classes\<close>

text \<open>
  The chain of an agent is its template piped into its model (and, for the team,
  into the parser), so an agent is its role, its model and its template.
\<close>

record ChatOpenAI =
  temperature :: nat
  model_name :: string

record SpecialistAgent =
  role :: string
  model :: ChatOpenAI
  prompt_template :: prompt

record MultidisciplinaryTeam =
  team_model :: ChatOpenAI
  team_prompt_template :: prompt

text \<open>
  The world a run sees: the environment variable, the file system, whether the
  client object of a model can be built, the remote model's answer to each
  specialist and to the team, and the time at which each specialist task
  finishes.
\<close>

record world =
  OPENAI_API_KEY :: "string option"
  read_file :: "string \<Rightarrow> exn + string"
  ChatOpenAI_error :: "string \<Rightarrow> exn option"
  invoke_specialist :: "SpecialistAgent \<Rightarrow> string \<Rightarrow> string call"
  finish_time :: "string \<Rightarrow> nat"
  invoke_team :: "MultidisciplinaryTeam \<Rightarrow> string \<Rightarrow> string \<Rightarrow> string \<Rightarrow> raw_analysis call"

text \<open>
  \<open>ChatOpenAI(temperature=t, model=m)\<close> builds the client object of a model. It
  makes no remote call, and it raises when the client cannot be set up (it finds
  no API key); \<open>ChatOpenAI_error w m\<close> is the exception it raises in the world
  \<open>w\<close>, if any.
\<close>

definition ChatOpenAI_init :: "world \<Rightarrow> nat \<Rightarrow> string \<Rightarrow> exn + ChatOpenAI" where
  "ChatOpenAI_init w t m =
     (case ChatOpenAI_error w m of
        Some e \<Rightarrow> Inl e
      | None \<Rightarrow> Inr \<lparr>temperature = t, model_name = m\<rparr>)"

text \<open>The constructor builds the client first and looks the template up after it.\<close>

definition SpecialistAgent_init :: "world \<Rightarrow> string \<Rightarrow> string \<Rightarrow> exn + SpecialistAgent" where
  "SpecialistAgent_init w r m =
     (case ChatOpenAI_init w 0 m of
        Inl e \<Rightarrow> Inl e
      | Inr client \<Rightarrow>
          (case map_of PROMPTS (lower r) of
             None \<Rightarrow> Inl (KeyError (lower r))
           | Some prompt_text \<Rightarrow>
               Inr \<lparr>role = r, model = client, prompt_template = prompt_text\<rparr>))"

definition SpecialistAgent_run :: "world \<Rightarrow> SpecialistAgent \<Rightarrow> string \<Rightarrow> string call" where
  "SpecialistAgent_run w agent medical_report = invoke_specialist w agent medical_report"

definition MultidisciplinaryTeam_init :: "world \<Rightarrow> string \<Rightarrow> exn + MultidisciplinaryTeam" where
  "MultidisciplinaryTeam_init w m =
     (case ChatOpenAI_init w 0 m of
        Inl e \<Rightarrow> Inl e
      | Inr client \<Rightarrow>
          (case map_of PROMPTS ''multidisciplinary_team'' of
             None \<Rightarrow> Inl (KeyError ''multidisciplinary_team'')
           | Some prompt_text \<Rightarrow>
               Inr \<lparr>team_model = client, team_prompt_template = prompt_text\<rparr>))"

text \<open>
  The team's chain ends in the parser: the call raises when the remote call
  raises and when the response does not validate. \<open>None\<close>: it never returns.
\<close>

definition MultidisciplinaryTeam_run ::
  "world \<Rightarrow> MultidisciplinaryTeam \<Rightarrow> string \<Rightarrow> string \<Rightarrow> string \<Rightarrow> (exn + FinalAnalysis) option"
where
  "MultidisciplinaryTeam_run w team cardiologist_report psychologist_report pulmonologist_report =
     (case invoke_team w team cardiologist_report psychologist_report pulmonologist_report of
        Hangs \<Rightarrow> None
      | Raises e \<Rightarrow> Some (Inl (RemoteError e))
      | Returns raw \<Rightarrow> Some (FinalAnalysis_parse raw))"

section \<open>Main.py\<close>

text \<open>
  A run of \<open>main\<close> is a function of the world; it yields the trace of what the
  main thread did, in order, and how the run ended: \<open>Finished\<close> when \<open>main\<close>
  returns, \<open>Exit n\<close> for \<open>sys.exit(n)\<close>, \<open>Crash e\<close> for an exception that nothing
  catches, \<open>Stalled\<close> when the run blocks for ever. The trace has one event for
  each log call of \<open>main\<close>, for each agent constructed, for each task submitted to
  the executor, for the call of the team, and for the report file written.
  Setting up the log file is left out.
\<close>

datatype outcome = Finished | Exit nat | Crash exn | Stalled

datatype 'a step = Continue 'a | Stop outcome

datatype event =
    LogError_NoKey
  | LogInfo_Loaded
  | LogError_NoFile string
  | AgentConstructed string
  | TaskSubmitted string
  | LogInfo_Dispatching nat
  | LogInfo_Received string
  | LogError_AgentFailed string string
  | LogCritical_CannotProceed
  | LogInfo_AllReceived
  | TeamInvoked string string string
  | LogError_TeamFailed exn
  | ReportWritten string string
  | LogInfo_Complete

definition specialist_roles :: "string list" where
  "specialist_roles = [''Cardiologist'', ''Psychologist'', ''Pulmonologist'']"

subsection \<open>Setup and input validation\<close>

definition load_report :: "world \<Rightarrow> string \<Rightarrow> event list \<times> string step" where
  "load_report w report_path =
     (if OPENAI_API_KEY w = None \<or> OPENAI_API_KEY w = Some []
      then ([LogError_NoKey], Stop (Exit 1))
      else
        (case read_file w report_path of
           Inr medical_report \<Rightarrow> ([LogInfo_Loaded], Continue medical_report)
         | Inl e \<Rightarrow>
             (if e = FileNotFoundError
              then ([LogError_NoFile report_path], Stop (Exit 1))
              else ([], Stop (Crash e)))))"

subsection \<open>The fan-out\<close>

text \<open>
  The dict comprehension builds the agents one role after the other; an exception
  of a constructor is not caught.
\<close>

fun make_agents ::
  "world \<Rightarrow> string list \<Rightarrow> (string \<times> SpecialistAgent) list \<Rightarrow>
     event list \<times> (string \<times> SpecialistAgent) list step"
where
  "make_agents w [] agents = ([], Continue agents)"
| "make_agents w (r # rs) agents =
     (case SpecialistAgent_init w r ''gpt-4o'' of
        Inl e \<Rightarrow> ([], Stop (Crash e))
      | Inr agent \<Rightarrow>
          (case make_agents w rs (AList.update r agent agents) of
             (ev, s) \<Rightarrow> (AgentConstructed r # ev, s)))"

text \<open>\<open>future_to_role\<close>: one submitted task per agent, with the role it belongs to.\<close>

definition submit_all ::
  "world \<Rightarrow> (string \<times> SpecialistAgent) list \<Rightarrow> string \<Rightarrow> (string \<times> string call) list"
where
  "submit_all w agents medical_report =
     map (\<lambda>(r, agent). (r, SpecialistAgent_run w agent medical_report)) agents"

text \<open>
  \<open>as_completed\<close> yields every task that reaches a terminal state, in the order
  in which they finish, each with its result (\<open>Inr\<close>) or its exception (\<open>Inl\<close>);
  a task that never returns is never yielded.
\<close>

fun settled :: "'a call \<Rightarrow> (string + 'a) option" where
  "settled (Returns x) = Some (Inr x)"
| "settled (Raises e) = Some (Inl e)"
| "settled Hangs = None"

definition as_completed ::
  "world \<Rightarrow> (string \<times> string call) list \<Rightarrow> (string \<times> (string + string)) list"
where
  "as_completed w future_to_role =
     sort_key (\<lambda>(r, res). finish_time w r)
       (List.map_filter (\<lambda>(r, c). map_option (Pair r) (settled c)) future_to_role)"

definition placeholder :: "string \<Rightarrow> string" where
  "placeholder e = ''AGENT FAILED TO PRODUCE REPORT. REASON: '' @ e"

fun collect ::
  "(string \<times> (string + string)) list \<Rightarrow> (string \<times> string) list \<Rightarrow>
     event list \<times> (string \<times> string) list"
where
  "collect [] responses = ([], responses)"
| "collect ((r, Inr report) # fs) responses =
     (case collect fs (AList.update r report responses) of
        (ev, responses') \<Rightarrow> (LogInfo_Received r # ev, responses'))"
| "collect ((r, Inl e) # fs) responses =
     (case collect fs (AList.update r (placeholder e) responses) of
        (ev, responses') \<Rightarrow> (LogError_AgentFailed r e # ev, responses'))"

definition fan_out :: "world \<Rightarrow> string \<Rightarrow> event list \<times> (string \<times> string) list step" where
  "fan_out w medical_report =
     (case make_agents w specialist_roles [] of
        (ev1, Stop out) \<Rightarrow> (ev1, Stop out)
      | (ev1, Continue agents) \<Rightarrow>
          (let future_to_role = submit_all w agents medical_report in
           case collect (as_completed w future_to_role) [] of
             (ev2, responses) \<Rightarrow>
               (ev1 @ map (\<lambda>(r, agent). TaskSubmitted r) agents
                  @ [LogInfo_Dispatching (length specialist_roles)] @ ev2,
                if list_ex (\<lambda>(r, c). c = Hangs) future_to_role
                then Stop Stalled
                else Continue responses)))"

subsection \<open>Synthesis\<close>

definition get :: "(string \<times> string) list \<Rightarrow> string \<Rightarrow> string \<Rightarrow> string" where
  "get d k dflt = (case map_of d k of None \<Rightarrow> dflt | Some v \<Rightarrow> v)"

definition synthesis :: "world \<Rightarrow> (string \<times> string) list \<Rightarrow> event list \<times> FinalAnalysis step" where
  "synthesis w responses =
     (if length responses < length specialist_roles
      then ([LogCritical_CannotProceed], Stop (Exit 1))
      else
        (case MultidisciplinaryTeam_init w ''gpt-4o'' of
           Inl e \<Rightarrow> ([LogInfo_AllReceived, LogError_TeamFailed e], Stop (Exit 1))
         | Inr team_agent \<Rightarrow>
             (let c = get responses ''Cardiologist'' ''N/A'';
                  p = get responses ''Psychologist'' ''N/A'';
                  pu = get responses ''Pulmonologist'' ''N/A''
              in case MultidisciplinaryTeam_run w team_agent c p pu of
                   None \<Rightarrow> ([LogInfo_AllReceived, TeamInvoked c p pu], Stop Stalled)
                 | Some (Inl e) \<Rightarrow>
                     ([LogInfo_AllReceived, TeamInvoked c p pu, LogError_TeamFailed e],
                      Stop (Exit 1))
                 | Some (Inr final_analysis) \<Rightarrow>
                     ([LogInfo_AllReceived, TeamInvoked c p pu], Continue final_analysis))))"

subsection \<open>Formatting and saving the output\<close>

definition title :: string where
  "title = ''### Final Multidisciplinary Team Analysis ###'' @ [CHR 0x0A, CHR 0x0A]"

definition tag :: "HealthIssue \<Rightarrow> string" where
  "tag issue = (if is_primary issue then ''Primary Diagnosis'' else ''Differential Diagnosis'')"

definition issue_text :: "HealthIssue \<Rightarrow> string" where
  "issue_text issue =
     (''**'' @ tag issue @ '': '' @ diagnosis issue @ ''**'' @ [CHR 0x0A])
     @ (''   - **Rationale:** '' @ rationale issue @ [CHR 0x0A, CHR 0x0A])"

definition format_report :: "FinalAnalysis \<Rightarrow> string" where
  "format_report final_analysis =
     foldl (\<lambda>report_text issue. report_text @ issue_text issue) title
       (sort_key (\<lambda>x. \<not> is_primary x) (analysis final_analysis))"

text \<open>\<open>os.path.basename\<close> and \<open>os.path.join\<close> on POSIX paths.\<close>

definition basename :: "string \<Rightarrow> string" where
  "basename p = rev (takeWhile (\<lambda>c. c \<noteq> CHR ''/'') (rev p))"

definition path_join :: "string \<Rightarrow> string \<Rightarrow> string" where
  "path_join a b =
     (if starts_with b ''/'' then b
      else if a = [] \<or> last a = CHR ''/'' then a @ b
      else a @ ''/'' @ b)"

subsection \<open>The whole run\<close>

definition main :: "world \<Rightarrow> string \<Rightarrow> string \<Rightarrow> event list \<times> outcome" where
  "main w report_path output_dir =
     (case load_report w report_path of
        (ev0, Stop out) \<Rightarrow> (ev0, out)
      | (ev0, Continue medical_report) \<Rightarrow>
          (case fan_out w medical_report of
             (ev1, Stop out) \<Rightarrow> (ev0 @ ev1, out)
           | (ev1, Continue responses) \<Rightarrow>
               (case synthesis w responses of
                  (ev2, Stop out) \<Rightarrow> (ev0 @ ev1 @ ev2, out)
                | (ev2, Continue final_analysis) \<Rightarrow>
                    (let report_text = format_report final_analysis;
                         output_filename = ''analysis_'' @ basename report_path;
                         output_path = path_join output_dir output_filename
                     in (ev0 @ ev1 @ ev2 @ [ReportWritten output_path report_text, LogInfo_Complete],
                         Finished)))))"

section \<open>Example runs\<close>

text \<open>A response of the team with three entries, the second one primary.\<close>

definition raw_three :: raw_analysis where
  "raw_three =
     Items
       [\<lparr>raw_diagnosis = Some ''Asthma'', raw_rationale = Some ''wheezing'',
         raw_is_primary = Some False\<rparr>,
        \<lparr>raw_diagnosis = Some ''Panic disorder'', raw_rationale = Some ''normal workup'',
         raw_is_primary = Some True\<rparr>,
        \<lparr>raw_diagnosis = Some ''GERD'', raw_rationale = Some ''chest pain'',
         raw_is_primary = Some False\<rparr>]"

text \<open>A run in which every call succeeds; the psychologist finishes first.\<close>

definition w_ok :: world where
  "w_ok =
     \<lparr>OPENAI_API_KEY = Some ''sk-test'',
      read_file = (\<lambda>p. Inr ''Patient reports chest pain and shortness of breath''),
      ChatOpenAI_error = (\<lambda>m. None),
      invoke_specialist = (\<lambda>agent r. Returns (role agent @ '' report'')),
      finish_time = (\<lambda>r. if r = ''Psychologist'' then 1 else 2),
      invoke_team = (\<lambda>t c p pu. Returns raw_three)\<rparr>"

text \<open>The same run, but the cardiologist's call raises an exception with text \<open>boom\<close>.\<close>

definition w_fail :: world where
  "w_fail =
     w_ok\<lparr>invoke_specialist :=
            (\<lambda>agent r. if role agent = ''Cardiologist'' then Raises ''boom''
                       else Returns (role agent @ '' report''))\<rparr>"

text \<open>The same run, but the pulmonologist's call never returns.\<close>

definition w_hang :: world where
  "w_hang =
     w_ok\<lparr>invoke_specialist :=
            (\<lambda>agent r. if role agent = ''Pulmonologist'' then Hangs
                       else Returns (role agent @ '' report''))\<rparr>"

text \<open>The same run without the credential.\<close>

definition w_nokey :: world where
  "w_nokey = w_ok\<lparr>OPENAI_API_KEY := None\<rparr>"

text \<open>
  A world without the credential, in which the client object cannot be built:
  its constructor raises a validation error.
\<close>

definition w_noclient :: world where
  "w_noclient = w_ok\<lparr>OPENAI_API_KEY := None, ChatOpenAI_error := (\<lambda>m. Some ValidationError)\<rparr>"

text \<open>A response with two entries, none of them primary.\<close>

definition raw_two :: raw_analysis where
  "raw_two =
     Items
       [\<lparr>raw_diagnosis = Some ''Asthma'', raw_rationale = Some ''wheezing'',
         raw_is_primary = Some False\<rparr>,
        \<lparr>raw_diagnosis = Some ''GERD'', raw_rationale = Some ''chest pain'',
         raw_is_primary = Some False\<rparr>]"

text \<open>A response whose only entry has no rationale.\<close>

definition raw_incomplete :: raw_analysis where
  "raw_incomplete =
     Items
       [\<lparr>raw_diagnosis = Some ''Asthma'', raw_rationale = None,
         raw_is_primary = Some True\<rparr>]"

text \<open>The validated form of \<open>raw_three\<close>.\<close>

definition fa_three :: FinalAnalysis where
  "fa_three = \<lparr>analysis =
     [\<lparr>diagnosis = ''Asthma'', rationale = ''wheezing'', is_primary = False\<rparr>,
      \<lparr>diagnosis = ''Panic disorder'', rationale = ''normal workup'', is_primary = True\<rparr>,
      \<lparr>diagnosis = ''GERD'', rationale = ''chest pain'', is_primary = False\<rparr>]\<rparr>"

section \<open>Notions used in the statements\<close>

text \<open>
  The task of a role: the call made by the agent constructed for it, if it can be
  constructed. The futures of a run: one per role, in the order of
  \<open>specialist_roles\<close>.
\<close>

definition specialist_task :: "world \<Rightarrow> string \<Rightarrow> string \<Rightarrow> string call option" where
  "specialist_task w medical_report r =
     (case SpecialistAgent_init w r ''gpt-4o'' of
        Inl e \<Rightarrow> None
      | Inr agent \<Rightarrow> Some (SpecialistAgent_run w agent medical_report))"

definition futures :: "world \<Rightarrow> string \<Rightarrow> (string \<times> string call) list" where
  "futures w medical_report =
     List.map_filter (\<lambda>r. map_option (Pair r) (specialist_task w medical_report r))
       specialist_roles"

text \<open>What the loop stores for a settled task, and what it logs.\<close>

fun entry_of :: "string + string \<Rightarrow> string" where
  "entry_of (Inr report) = report"
| "entry_of (Inl e) = placeholder e"

fun completion_event :: "string \<times> (string + string) \<Rightarrow> event" where
  "completion_event (r, Inr report) = LogInfo_Received r"
| "completion_event (r, Inl e) = LogError_AgentFailed r e"

text \<open>An entry with all three fields, and the \<open>HealthIssue\<close> it carries.\<close>

definition complete :: "raw_issue \<Rightarrow> bool" where
  "complete r = (raw_diagnosis r \<noteq> None \<and> raw_rationale r \<noteq> None \<and> raw_is_primary r \<noteq> None)"

definition issue_of :: "raw_issue \<Rightarrow> HealthIssue" where
  "issue_of r =
     \<lparr>diagnosis = the (raw_diagnosis r), rationale = the (raw_rationale r),
      is_primary = the (raw_is_primary r)\<rparr>"

text \<open>
  The analysis that the team returns in a run, if the run gets that far and the
  response validates.
\<close>

definition run_analysis :: "world \<Rightarrow> string \<Rightarrow> FinalAnalysis option" where
  "run_analysis w report_path =
     (case load_report w report_path of
        (ev0, Stop out) \<Rightarrow> None
      | (ev0, Continue medical_report) \<Rightarrow>
          (case fan_out w medical_report of
             (ev1, Stop out) \<Rightarrow> None
           | (ev1, Continue responses) \<Rightarrow>
               (case synthesis w responses of
                  (ev2, Stop out) \<Rightarrow> None
                | (ev2, Continue final_analysis) \<Rightarrow> Some final_analysis)))"

section \<open>Startup\<close>

text \<open>
  C7. If \<open>OPENAI_API_KEY\<close> is absent (or empty) at startup, the run logs the fatal
  error and exits with status 1; no specialist agent is constructed, no specialist
  task is submitted and the team is not invoked, so no remote call is made.
\<close>

theorem missing_credential_exits_before_any_agent:
  assumes "OPENAI_API_KEY w = None \<or> OPENAI_API_KEY w = Some []"
  shows "main w report_path output_dir = ([LogError_NoKey], Exit 1)
         \<and> (\<forall>r. AgentConstructed r \<notin> set (fst (main w report_path output_dir)))
         \<and> (\<forall>r. TaskSubmitted r \<notin> set (fst (main w report_path output_dir)))
         \<and> (\<forall>c p pu. TeamInvoked c p pu \<notin> set (fst (main w report_path output_dir)))"
proof -
  from assms have "load_report w report_path = ([LogError_NoKey], Stop (Exit 1))"
    by (simp add: load_report_def)
  then have "main w report_path output_dir = ([LogError_NoKey], Exit 1)"
    by (simp add: main_def)
  then show ?thesis by simp
qed

theorem missing_credential_exits_before_any_agent_witness:
  "OPENAI_API_KEY w_nokey = None
   \<and> main w_nokey ''report.txt'' ''results'' = ([LogError_NoKey], Exit 1)"
  using missing_credential_exits_before_any_agent [of w_nokey "''report.txt''" "''results''"]
  by (simp add: w_nokey_def)

section \<open>Constructing a specialist\<close>

lemma lower_Cardiologist: "lower ''CardioLOGIST'' = ''cardiologist''"
  by (simp add: lower_def lower_char_def)

lemma lower_Dermatologist: "lower ''Dermatologist'' = ''dermatologist''"
  by (simp add: lower_def lower_char_def)

text \<open>
  C9, as stated, fails: where the client object cannot be built, constructing a
  \<open>SpecialistAgent\<close> with a role whose lowercase form is not a key of \<open>PROMPTS\<close>
  raises the client's exception, not \<open>KeyError\<close>; the lookup is not reached.
\<close>

theorem SpecialistAgent_init_client_error_first:
  "lower ''Dermatologist''
     \<notin> {''cardiologist'', ''psychologist'', ''pulmonologist'', ''multidisciplinary_team''}
   \<and> SpecialistAgent_init w_noclient ''Dermatologist'' ''gpt-4o'' = Inl ValidationError
   \<and> SpecialistAgent_init w_noclient ''Dermatologist'' ''gpt-4o''
       \<noteq> Inl (KeyError (lower ''Dermatologist''))"
  by (simp add: SpecialistAgent_init_def ChatOpenAI_init_def w_noclient_def w_ok_def
        lower_Dermatologist)

text \<open>
  C9, amended. The constructor builds the client first: where that raises, the
  constructor raises the same exception whatever the role. Where the client can
  be built, a role whose lowercase form is not one of the four keys of \<open>PROMPTS\<close>
  raises \<open>KeyError\<close>, and a role whose lowercase form is \<open>cardiologist\<close>,
  \<open>psychologist\<close> or \<open>pulmonologist\<close> gets that key's template, whatever the case
  of its letters, and keeps its own spelling as \<open>role\<close>. In no case does the
  result depend on what the remote model would answer.
\<close>

theorem SpecialistAgent_init_lookup:
  "(\<forall>e. ChatOpenAI_error w m = Some e \<longrightarrow> SpecialistAgent_init w r m = Inl e)
   \<and> (ChatOpenAI_error w m = None \<longrightarrow>
        (lower r \<notin> {''cardiologist'', ''psychologist'', ''pulmonologist'',
                      ''multidisciplinary_team''}
           \<longrightarrow> SpecialistAgent_init w r m = Inl (KeyError (lower r)))
      \<and> (lower r = ''cardiologist''
           \<longrightarrow> SpecialistAgent_init w r m =
                 Inr \<lparr>role = r, model = \<lparr>temperature = 0, model_name = m\<rparr>,
                      prompt_template = Cardiologist_prompt\<rparr>)
      \<and> (lower r = ''psychologist''
           \<longrightarrow> SpecialistAgent_init w r m =
                 Inr \<lparr>role = r, model = \<lparr>temperature = 0, model_name = m\<rparr>,
                      prompt_template = Psychologist_prompt\<rparr>)
      \<and> (lower r = ''pulmonologist''
           \<longrightarrow> SpecialistAgent_init w r m =
                 Inr \<lparr>role = r, model = \<lparr>temperature = 0, model_name = m\<rparr>,
                      prompt_template = Pulmonologist_prompt\<rparr>))
   \<and> SpecialistAgent_init (w\<lparr>invoke_specialist := f, invoke_team := g\<rparr>) r m
       = SpecialistAgent_init w r m"
  by (simp add: SpecialistAgent_init_def ChatOpenAI_init_def PROMPTS_def)

theorem SpecialistAgent_init_lookup_witness:
  "ChatOpenAI_error w_ok ''gpt-4o'' = None
   \<and> SpecialistAgent_init w_ok ''Dermatologist'' ''gpt-4o'' = Inl (KeyError ''dermatologist'')
   \<and> SpecialistAgent_init w_ok ''CardioLOGIST'' ''gpt-4o'' =
         Inr \<lparr>role = ''CardioLOGIST'', model = \<lparr>temperature = 0, model_name = ''gpt-4o''\<rparr>,
              prompt_template = Cardiologist_prompt\<rparr>
   \<and> ChatOpenAI_error w_noclient ''gpt-4o'' = Some ValidationError
   \<and> SpecialistAgent_init w_noclient ''CardioLOGIST'' ''gpt-4o'' = Inl ValidationError"
  using SpecialistAgent_init_lookup [of w_ok "''gpt-4o''" "''Dermatologist''"]
        SpecialistAgent_init_lookup [of w_ok "''gpt-4o''" "''CardioLOGIST''"]
        SpecialistAgent_init_lookup [of w_noclient "''gpt-4o''" "''CardioLOGIST''"]
  by (simp add: lower_Cardiologist lower_Dermatologist w_ok_def w_noclient_def)

section \<open>Validating the team's response\<close>

text \<open>
  C3, as stated, fails: a response with two entries, none of them marked primary,
  is accepted, and the \<open>FinalAnalysis\<close> it yields has two entries and no primary one.
\<close>

theorem parse_accepts_two_entries_without_primary:
  "FinalAnalysis_parse raw_two =
     Inr \<lparr>analysis =
           [\<lparr>diagnosis = ''Asthma'', rationale = ''wheezing'', is_primary = False\<rparr>,
            \<lparr>diagnosis = ''GERD'', rationale = ''chest pain'', is_primary = False\<rparr>]\<rparr>"
  by (simp add: raw_two_def FinalAnalysis_parse_def HealthIssue_validate_def)

lemma HealthIssue_validate_cases:
  "HealthIssue_validate r = (if complete r then Inr (issue_of r) else Inl ValidationError)"
  by (auto simp: HealthIssue_validate_def complete_def issue_of_def split: option.splits)

lemma validate_items_cases:
  "validate_items rs =
     (if list_all complete rs then Inr (map issue_of rs) else Inl ValidationError)"
  by (induction rs) (simp_all add: HealthIssue_validate_cases)

text \<open>
  C3, amended. Parsing is all or nothing on the declared fields: a response whose
  \<open>analysis\<close> is missing or is not a list is rejected; a list with an entry that
  lacks \<open>diagnosis\<close>, \<open>rationale\<close> or \<open>is_primary\<close> is rejected; a rejection is
  an error and carries no \<open>FinalAnalysis\<close>. A list whose entries all have the three
  fields is accepted as it is, whatever its length and however many of its entries
  are marked primary.
\<close>

theorem FinalAnalysis_parse_checks_fields_only:
  "FinalAnalysis_parse Missing = Inl ValidationError
   \<and> FinalAnalysis_parse NotAList = Inl ValidationError
   \<and> ((\<exists>r\<in>set rs. raw_diagnosis r = None \<or> raw_rationale r = None \<or> raw_is_primary r = None)
        \<longrightarrow> FinalAnalysis_parse (Items rs) = Inl ValidationError)
   \<and> ((\<forall>r\<in>set rs. raw_diagnosis r \<noteq> None \<and> raw_rationale r \<noteq> None \<and> raw_is_primary r \<noteq> None)
        \<longrightarrow> FinalAnalysis_parse (Items rs) = Inr \<lparr>analysis = map issue_of rs\<rparr>)"
  by (auto simp: FinalAnalysis_parse_def validate_items_cases list_all_iff complete_def)

theorem FinalAnalysis_parse_checks_fields_only_witness:
  "FinalAnalysis_parse raw_incomplete = Inl ValidationError
   \<and> FinalAnalysis_parse raw_three = Inr fa_three"
proof -
  let ?bad = "[\<lparr>raw_diagnosis = Some ''Asthma'', raw_rationale = None,
                raw_is_primary = Some True\<rparr>]"
  let ?good = "[\<lparr>raw_diagnosis = Some ''Asthma'', raw_rationale = Some ''wheezing'',
                 raw_is_primary = Some False\<rparr>,
                \<lparr>raw_diagnosis = Some ''Panic disorder'', raw_rationale = Some ''normal workup'',
                 raw_is_primary = Some True\<rparr>,
                \<lparr>raw_diagnosis = Some ''GERD'', raw_rationale = Some ''chest pain'',
                 raw_is_primary = Some False\<rparr>]"
  have b: "\<exists>r\<in>set ?bad. raw_diagnosis r = None \<or> raw_rationale r = None \<or> raw_is_primary r = None"
    by simp
  have g: "\<forall>r\<in>set ?good. raw_diagnosis r \<noteq> None \<and> raw_rationale r \<noteq> None \<and> raw_is_primary r \<noteq> None"
    by auto
  have m: "map issue_of ?good = analysis fa_three"
    by (simp add: issue_of_def fa_three_def)
  from FinalAnalysis_parse_checks_fields_only [of ?bad] b
  have 1: "FinalAnalysis_parse (Items ?bad) = Inl ValidationError" by blast
  from FinalAnalysis_parse_checks_fields_only [of ?good] g
  have 2: "FinalAnalysis_parse (Items ?good) = Inr \<lparr>analysis = map issue_of ?good\<rparr>" by blast
  from 1 2 m show ?thesis by (simp add: raw_incomplete_def raw_three_def)
qed

section \<open>The report formatter\<close>

lemma insort_key_front:
  "(\<forall>y\<in>set ys. f x \<le> f y) \<Longrightarrow> insort_key f x ys = x # ys"
  by (cases ys) auto

lemma insort_key_after:
  "(\<forall>y\<in>set as. \<not> f x \<le> f y) \<Longrightarrow> insort_key f x (as @ bs) = as @ insort_key f x bs"
  by (induction as) auto

lemma sort_key_primary_first:
  "sort_key (\<lambda>x. \<not> P x) xs = filter P xs @ filter (\<lambda>x. \<not> P x) xs"
proof (induction xs)
  case Nil
  show ?case by simp
next
  case (Cons x xs)
  show ?case
  proof (cases "P x")
    case True
    then have "insort_key (\<lambda>x. \<not> P x) x (filter P xs @ filter (\<lambda>x. \<not> P x) xs)
               = x # filter P xs @ filter (\<lambda>x. \<not> P x) xs"
      by (intro insort_key_front) simp
    with True Cons show ?thesis by simp
  next
    case False
    then have "insort_key (\<lambda>x. \<not> P x) x (filter P xs @ filter (\<lambda>x. \<not> P x) xs)
               = filter P xs @ insort_key (\<lambda>x. \<not> P x) x (filter (\<lambda>x. \<not> P x) xs)"
      by (intro insort_key_after) simp
    also have "insort_key (\<lambda>x. \<not> P x) x (filter (\<lambda>x. \<not> P x) xs) = x # filter (\<lambda>x. \<not> P x) xs"
      by (intro insort_key_front) simp
    finally show ?thesis using False Cons by simp
  qed
qed

lemma foldl_append_concat:
  "foldl (\<lambda>acc x. acc @ g x) acc xs = acc @ concat (map g xs)"
  by (induction xs arbitrary: acc) simp_all

lemma format_report_concat:
  "format_report fa =
     title @ concat (map issue_text
       (filter is_primary (analysis fa) @ filter (\<lambda>x. \<not> is_primary x) (analysis fa)))"
  unfolding format_report_def foldl_append_concat sort_key_primary_first ..

lemma length_filter_partition:
  "length (filter P xs) + length (filter (\<lambda>x. \<not> P x) xs) = length xs"
  by (induction xs) simp_all

text \<open>
  C5. For a \<open>FinalAnalysis\<close> with three entries of which exactly one is primary,
  the sort puts the primary entry first and keeps the other two in their original
  order (it is the stable sort on \<open>not is_primary\<close>), and the report is the title,
  then a \<open>Primary Diagnosis\<close> header with the primary entry's rationale line, then
  two \<open>Differential Diagnosis\<close> headers, each with its entry's rationale line.
\<close>

theorem format_report_three_entries:
  assumes "length (analysis fa) = 3" and "length (filter is_primary (analysis fa)) = 1"
  shows "\<exists>p d1 d2.
           filter is_primary (analysis fa) = [p]
         \<and> filter (\<lambda>x. \<not> is_primary x) (analysis fa) = [d1, d2]
         \<and> sort_key (\<lambda>x. \<not> is_primary x) (analysis fa) = [p, d1, d2]
         \<and> format_report fa =
             title
             @ ''**Primary Diagnosis: '' @ diagnosis p @ ''**'' @ [CHR 0x0A]
             @ ''   - **Rationale:** '' @ rationale p @ [CHR 0x0A, CHR 0x0A]
             @ ''**Differential Diagnosis: '' @ diagnosis d1 @ ''**'' @ [CHR 0x0A]
             @ ''   - **Rationale:** '' @ rationale d1 @ [CHR 0x0A, CHR 0x0A]
             @ ''**Differential Diagnosis: '' @ diagnosis d2 @ ''**'' @ [CHR 0x0A]
             @ ''   - **Rationale:** '' @ rationale d2 @ [CHR 0x0A, CHR 0x0A]"
proof -
  from assms(2) obtain p where p: "filter is_primary (analysis fa) = [p]"
    by (auto simp: length_Suc_conv)
  have "length (filter (\<lambda>x. \<not> is_primary x) (analysis fa)) = 2"
    using length_filter_partition [of is_primary "analysis fa"] assms by simp
  then obtain d1 d2 where d: "filter (\<lambda>x. \<not> is_primary x) (analysis fa) = [d1, d2]"
    by (auto simp: length_Suc_conv numeral_2_eq_2)
  have "p \<in> set (filter is_primary (analysis fa))" using p by simp
  then have pp: "is_primary p" by simp
  have "d1 \<in> set (filter (\<lambda>x. \<not> is_primary x) (analysis fa))"
       "d2 \<in> set (filter (\<lambda>x. \<not> is_primary x) (analysis fa))" using d by simp_all
  then have dd: "\<not> is_primary d1" "\<not> is_primary d2" by simp_all
  have "sort_key (\<lambda>x. \<not> is_primary x) (analysis fa) = [p, d1, d2]"
    by (simp add: sort_key_primary_first p d)
  moreover have "format_report fa = title @ issue_text p @ issue_text d1 @ issue_text d2"
    by (simp add: format_report_concat p d)
  ultimately show ?thesis using p d pp dd
    by (simp add: issue_text_def tag_def)
qed

theorem format_report_three_entries_witness:
  "length (analysis fa_three) = 3 \<and> length (filter is_primary (analysis fa_three)) = 1
   \<and> sort_key (\<lambda>x. \<not> is_primary x) (analysis fa_three)
       = [analysis fa_three ! 1, analysis fa_three ! 0, analysis fa_three ! 2]"
  using format_report_three_entries [of fa_three]
  by (simp add: fa_three_def)

text \<open>
  C10. For every \<open>FinalAnalysis\<close>, whatever its length and the number of its
  primary entries, the formatter returns the title followed by one block per
  entry, a header line and a rationale line; as many blocks are headed
  \<open>Primary Diagnosis\<close> as there are primary entries, and as many
  \<open>Differential Diagnosis\<close> as there are other entries.
\<close>

theorem format_report_total:
  "format_report fa =
     title @ concat (map
       (\<lambda>issue. ''**'' @ tag issue @ '': '' @ diagnosis issue @ ''**'' @ [CHR 0x0A]
                 @ ''   - **Rationale:** '' @ rationale issue @ [CHR 0x0A, CHR 0x0A])
       (sort_key (\<lambda>x. \<not> is_primary x) (analysis fa)))
   \<and> length (sort_key (\<lambda>x. \<not> is_primary x) (analysis fa)) = length (analysis fa)
   \<and> length (filter (\<lambda>issue. tag issue = ''Primary Diagnosis'')
               (sort_key (\<lambda>x. \<not> is_primary x) (analysis fa)))
       = length (filter is_primary (analysis fa))
   \<and> length (filter (\<lambda>issue. tag issue = ''Differential Diagnosis'')
               (sort_key (\<lambda>x. \<not> is_primary x) (analysis fa)))
       = length (filter (\<lambda>x. \<not> is_primary x) (analysis fa))"
proof -
  have t: "(\<lambda>issue. tag issue = ''Primary Diagnosis'') = is_primary"
          "(\<lambda>issue. tag issue = ''Differential Diagnosis'') = (\<lambda>x. \<not> is_primary x)"
    by (auto simp: tag_def fun_eq_iff)
  have f: "format_report fa =
     title @ concat (map issue_text (sort_key (\<lambda>x. \<not> is_primary x) (analysis fa)))"
    by (simp add: format_report_def foldl_append_concat)
  have i: "issue_text = (\<lambda>issue. ''**'' @ tag issue @ '': '' @ diagnosis issue @ ''**'' @ [CHR 0x0A]
                 @ ''   - **Rationale:** '' @ rationale issue @ [CHR 0x0A, CHR 0x0A])"
    by (simp add: issue_text_def fun_eq_iff)
  show ?thesis
    unfolding t f i
    using length_filter_partition [of is_primary "analysis fa"]
    by (simp add: sort_key_primary_first)
qed

section \<open>The fan-out\<close>

lemma init_roles:
  assumes "ChatOpenAI_error w ''gpt-4o'' = None"
  shows
  "SpecialistAgent_init w ''Cardiologist'' ''gpt-4o'' =
     Inr \<lparr>role = ''Cardiologist'', model = \<lparr>temperature = 0, model_name = ''gpt-4o''\<rparr>,
          prompt_template = Cardiologist_prompt\<rparr>"
  "SpecialistAgent_init w ''Psychologist'' ''gpt-4o'' =
     Inr \<lparr>role = ''Psychologist'', model = \<lparr>temperature = 0, model_name = ''gpt-4o''\<rparr>,
          prompt_template = Psychologist_prompt\<rparr>"
  "SpecialistAgent_init w ''Pulmonologist'' ''gpt-4o'' =
     Inr \<lparr>role = ''Pulmonologist'', model = \<lparr>temperature = 0, model_name = ''gpt-4o''\<rparr>,
          prompt_template = Pulmonologist_prompt\<rparr>"
  using assms
  by (simp_all add: SpecialistAgent_init_def ChatOpenAI_init_def PROMPTS_def lower_def
        lower_char_def)

lemma init_error:
  "ChatOpenAI_error w ''gpt-4o'' = Some e \<Longrightarrow> SpecialistAgent_init w r ''gpt-4o'' = Inl e"
  by (simp add: SpecialistAgent_init_def ChatOpenAI_init_def)

lemma make_agents_roles:
  assumes "ChatOpenAI_error w ''gpt-4o'' = None"
  shows "make_agents w specialist_roles [] =
     ([AgentConstructed ''Cardiologist'', AgentConstructed ''Psychologist'',
       AgentConstructed ''Pulmonologist''],
      Continue
        [(''Cardiologist'',
          \<lparr>role = ''Cardiologist'', model = \<lparr>temperature = 0, model_name = ''gpt-4o''\<rparr>,
           prompt_template = Cardiologist_prompt\<rparr>),
         (''Psychologist'',
          \<lparr>role = ''Psychologist'', model = \<lparr>temperature = 0, model_name = ''gpt-4o''\<rparr>,
           prompt_template = Psychologist_prompt\<rparr>),
         (''Pulmonologist'',
          \<lparr>role = ''Pulmonologist'', model = \<lparr>temperature = 0, model_name = ''gpt-4o''\<rparr>,
           prompt_template = Pulmonologist_prompt\<rparr>)])"
  by (simp add: specialist_roles_def init_roles [OF assms])

lemma make_agents_error:
  "ChatOpenAI_error w ''gpt-4o'' = Some e \<Longrightarrow>
     make_agents w specialist_roles [] = ([], Stop (Crash e))"
  by (simp add: specialist_roles_def init_error)

lemma specialist_task_error:
  "ChatOpenAI_error w ''gpt-4o'' = Some e \<Longrightarrow> specialist_task w medical_report r = None"
  by (simp add: specialist_task_def init_error)

lemma futures_roles:
  assumes "ChatOpenAI_error w ''gpt-4o'' = None"
  shows "futures w medical_report =
     [(''Cardiologist'',
       invoke_specialist w
         \<lparr>role = ''Cardiologist'', model = \<lparr>temperature = 0, model_name = ''gpt-4o''\<rparr>,
          prompt_template = Cardiologist_prompt\<rparr> medical_report),
      (''Psychologist'',
       invoke_specialist w
         \<lparr>role = ''Psychologist'', model = \<lparr>temperature = 0, model_name = ''gpt-4o''\<rparr>,
          prompt_template = Psychologist_prompt\<rparr> medical_report),
      (''Pulmonologist'',
       invoke_specialist w
         \<lparr>role = ''Pulmonologist'', model = \<lparr>temperature = 0, model_name = ''gpt-4o''\<rparr>,
          prompt_template = Pulmonologist_prompt\<rparr> medical_report)]"
  by (simp add: futures_def specialist_roles_def specialist_task_def init_roles [OF assms]
        SpecialistAgent_run_def List.map_filter_simps)

lemma collect_keys:
  "collect fs responses = (ev, responses') \<Longrightarrow>
     fst ` set responses' = fst ` set responses \<union> fst ` set fs"
proof (induction fs responses arbitrary: ev responses' rule: collect.induct)
  case (1 responses)
  then show ?case by simp
next
  case (2 r report fs responses)
  then show ?case by (auto simp: dom_update split: prod.splits)
next
  case (3 r e fs responses)
  then show ?case by (auto simp: dom_update split: prod.splits)
qed

lemma collect_distinct:
  "collect fs responses = (ev, responses') \<Longrightarrow> distinct (map fst responses) \<Longrightarrow>
     distinct (map fst responses')"
proof (induction fs responses arbitrary: ev responses' rule: collect.induct)
  case (1 responses)
  then show ?case by simp
next
  case (2 r report fs responses)
  then show ?case by (auto simp: distinct_update split: prod.splits)
next
  case (3 r e fs responses)
  then show ?case by (auto simp: distinct_update split: prod.splits)
qed

lemma collect_lookup_other:
  "collect fs responses = (ev, responses') \<Longrightarrow> r \<notin> fst ` set fs \<Longrightarrow>
     map_of responses' r = map_of responses r"
proof (induction fs responses arbitrary: ev responses' rule: collect.induct)
  case (1 responses)
  then show ?case by simp
next
  case (2 r' report fs responses)
  then show ?case by (auto simp: update_conv' split: prod.splits)
next
  case (3 r' e fs responses)
  then show ?case by (auto simp: update_conv' split: prod.splits)
qed

lemma collect_lookup:
  "collect fs responses = (ev, responses') \<Longrightarrow> distinct (map fst fs) \<Longrightarrow> (r, res) \<in> set fs \<Longrightarrow>
     map_of responses' r = Some (entry_of res)"
proof (induction fs responses arbitrary: ev responses' rule: collect.induct)
  case (1 responses)
  then show ?case by simp
next
  case (2 r' report fs responses)
  then show ?case
    by (auto simp: update_conv' rev_image_eqI split: prod.splits dest!: collect_lookup_other)
next
  case (3 r' e fs responses)
  then show ?case
    by (auto simp: update_conv' rev_image_eqI split: prod.splits dest!: collect_lookup_other)
qed

lemma collect_events: "fst (collect fs responses) = map completion_event fs"
  by (induction fs responses rule: collect.induct) (auto split: prod.splits)

lemma set_as_completed:
  "set (as_completed w fs) = {(r, s). \<exists>c. (r, c) \<in> set fs \<and> settled c = Some s}"
proof -
  have "set (List.map_filter (\<lambda>(r, c). map_option (Pair r) (settled c)) fs)
        = {(r, s). \<exists>c. (r, c) \<in> set fs \<and> settled c = Some s}"
    by (induction fs) (auto simp: List.map_filter_simps split: option.splits)
  then show ?thesis by (simp add: as_completed_def)
qed

lemma distinct_as_completed:
  assumes "distinct (map fst fs)"
  shows "distinct (map fst (as_completed w fs))"
proof -
  have "map fst (List.map_filter (\<lambda>(r, c). map_option (Pair r) (settled c)) fs)
        = map fst (filter (\<lambda>(r, c). settled c \<noteq> None) fs)"
    by (induction fs) (auto simp: List.map_filter_def)
  then have d: "distinct (map fst (List.map_filter (\<lambda>(r, c). map_option (Pair r) (settled c)) fs))"
    using assms by (simp add: distinct_map_filter)
  then show ?thesis
    unfolding as_completed_def by (simp add: distinct_map)
qed

lemma fan_out_eq:
  assumes "ChatOpenAI_error w ''gpt-4o'' = None"
  shows "fan_out w medical_report =
     (map AgentConstructed specialist_roles @ map TaskSubmitted specialist_roles
        @ [LogInfo_Dispatching 3]
        @ map completion_event (as_completed w (futures w medical_report)),
      if list_ex (\<lambda>(r, c). c = Hangs) (futures w medical_report) then Stop Stalled
      else Continue (snd (collect (as_completed w (futures w medical_report)) [])))"
proof -
  let ?agents = "[(''Cardiologist'',
          \<lparr>role = ''Cardiologist'', model = \<lparr>temperature = 0, model_name = ''gpt-4o''\<rparr>,
           prompt_template = Cardiologist_prompt\<rparr>),
         (''Psychologist'',
          \<lparr>role = ''Psychologist'', model = \<lparr>temperature = 0, model_name = ''gpt-4o''\<rparr>,
           prompt_template = Psychologist_prompt\<rparr>),
         (''Pulmonologist'',
          \<lparr>role = ''Pulmonologist'', model = \<lparr>temperature = 0, model_name = ''gpt-4o''\<rparr>,
           prompt_template = Pulmonologist_prompt\<rparr>)]"
  have s: "submit_all w ?agents medical_report = futures w medical_report"
    by (simp add: submit_all_def futures_roles [OF assms] SpecialistAgent_run_def)
  obtain ev2 responses where
    c: "collect (as_completed w (futures w medical_report)) [] = (ev2, responses)"
    by (cases "collect (as_completed w (futures w medical_report)) []") blast
  have e: "ev2 = map completion_event (as_completed w (futures w medical_report))"
    using collect_events [of "as_completed w (futures w medical_report)" "[]"] c by simp
  show ?thesis
    unfolding fan_out_def make_agents_roles [OF assms] using s c e
    by (simp add: Let_def specialist_roles_def)
qed

lemma fan_out_error:
  "ChatOpenAI_error w ''gpt-4o'' = Some e \<Longrightarrow> fan_out w medical_report = ([], Stop (Crash e))"
  by (simp add: fan_out_def make_agents_error)

lemma distinct_futures:
  "ChatOpenAI_error w ''gpt-4o'' = None \<Longrightarrow> distinct (map fst (futures w medical_report))"
  by (simp add: futures_roles)

lemma futures_lookup:
  assumes "ChatOpenAI_error w ''gpt-4o'' = None" and "r \<in> set specialist_roles"
  shows "((r, c) \<in> set (futures w medical_report)) = (specialist_task w medical_report r = Some c)"
proof -
  from assms(2) consider "r = ''Cardiologist''" | "r = ''Psychologist''" | "r = ''Pulmonologist''"
    by (auto simp: specialist_roles_def)
  then show ?thesis
  proof cases
    case 1
    then show ?thesis
      by (simp add: futures_roles [OF assms(1)] specialist_task_def init_roles [OF assms(1)]
            SpecialistAgent_run_def eq_commute)
  next
    case 2
    then show ?thesis
      by (simp add: futures_roles [OF assms(1)] specialist_task_def init_roles [OF assms(1)]
            SpecialistAgent_run_def eq_commute)
  next
    case 3
    then show ?thesis
      by (simp add: futures_roles [OF assms(1)] specialist_task_def init_roles [OF assms(1)]
            SpecialistAgent_run_def eq_commute)
  qed
qed

lemma futures_mem:
  "ChatOpenAI_error w ''gpt-4o'' = None \<Longrightarrow> r \<in> set specialist_roles \<Longrightarrow>
     \<exists>c. (r, c) \<in> set (futures w medical_report)"
  by (auto simp: futures_roles specialist_roles_def)

lemma futures_role:
  "ChatOpenAI_error w ''gpt-4o'' = None \<Longrightarrow> (r, c) \<in> set (futures w medical_report) \<Longrightarrow>
     r \<in> set specialist_roles"
  by (auto simp: futures_roles specialist_roles_def)

lemma settled_None: "(settled c = None) = (c = Hangs)"
  by (cases c) simp_all

lemma fan_out_Continue:
  assumes "fan_out w medical_report = (ev, Continue responses)"
  shows "distinct (map fst responses)"
    and "set (map fst responses) = set specialist_roles"
    and "length responses = length specialist_roles"
    and "\<And>r. r \<in> set specialist_roles \<Longrightarrow>
           \<exists>c s. specialist_task w medical_report r = Some c \<and> settled c = Some s
               \<and> map_of responses r = Some (entry_of s)
               \<and> completion_event (r, s) \<in> set ev"
    and "ChatOpenAI_error w ''gpt-4o'' = None"
proof -
  let ?fs = "futures w medical_report"
  let ?ac = "as_completed w ?fs"
  have ok: "ChatOpenAI_error w ''gpt-4o'' = None"
  proof (cases "ChatOpenAI_error w ''gpt-4o''")
    case None
    then show ?thesis .
  next
    case (Some e)
    with assms show ?thesis by (simp add: fan_out_error)
  qed
  from assms have nohang: "\<not> list_ex (\<lambda>(r, c). c = Hangs) ?fs"
    and resp: "responses = snd (collect ?ac [])"
    and ev: "ev = map AgentConstructed specialist_roles @ map TaskSubmitted specialist_roles
        @ [LogInfo_Dispatching 3] @ map completion_event ?ac"
    by (auto simp: fan_out_eq [OF ok] split: if_splits)
  obtain ev2 where c: "collect ?ac [] = (ev2, responses)"
    using resp by (cases "collect ?ac []") simp
  have dac: "distinct (map fst ?ac)"
    by (rule distinct_as_completed) (rule distinct_futures [OF ok])
  show "ChatOpenAI_error w ''gpt-4o'' = None" by (rule ok)
  show d: "distinct (map fst responses)" using collect_distinct [OF c] by simp
  have keys_ac: "fst ` set ?ac = set specialist_roles"
  proof
    show "fst ` set ?ac \<subseteq> set specialist_roles"
      by (auto simp: set_as_completed dest: futures_role [OF ok])
    show "set specialist_roles \<subseteq> fst ` set ?ac"
    proof
      fix r assume r: "r \<in> set specialist_roles"
      then obtain c where rc: "(r, c) \<in> set ?fs"
        using futures_mem [OF ok] by blast
      with nohang have "c \<noteq> Hangs" by (auto simp: list_ex_iff)
      then obtain s where "settled c = Some s" by (cases c) auto
      with rc have "(r, s) \<in> set ?ac" by (auto simp: set_as_completed)
      then show "r \<in> fst ` set ?ac" by force
    qed
  qed
  show k: "set (map fst responses) = set specialist_roles"
    using collect_keys [OF c] keys_ac by simp
  show "length responses = length specialist_roles"
  proof -
    have "length responses = card (set (map fst responses))"
      using d distinct_card [of "map fst responses"] by simp
    also have "\<dots> = card (set specialist_roles)" using k by simp
    also have "\<dots> = length specialist_roles"
      by (rule distinct_card) (simp add: specialist_roles_def)
    finally show ?thesis .
  qed
  fix r assume r: "r \<in> set specialist_roles"
  then obtain c where rc: "(r, c) \<in> set ?fs"
    using futures_mem [OF ok] by blast
  then have t: "specialist_task w medical_report r = Some c"
    using futures_lookup [OF ok r] by simp
  from nohang rc have "c \<noteq> Hangs" by (auto simp: list_ex_iff)
  then obtain s where s: "settled c = Some s" by (cases c) auto
  with rc have in_ac: "(r, s) \<in> set ?ac" by (auto simp: set_as_completed)
  have m: "map_of responses r = Some (entry_of s)"
    by (rule collect_lookup [OF c dac in_ac])
  have "completion_event (r, s) \<in> set (map completion_event ?ac)"
    using in_ac by (simp add: rev_image_eqI)
  then have e: "completion_event (r, s) \<in> set ev" unfolding ev by simp
  from t s m e show "\<exists>c s. specialist_task w medical_report r = Some c \<and> settled c = Some s
               \<and> map_of responses r = Some (entry_of s)
               \<and> completion_event (r, s) \<in> set ev"
    by blast
qed

section \<open>The run as a whole\<close>

lemma load_report_Continue:
  "load_report w report_path = (ev, Continue medical_report) \<Longrightarrow>
     ev = [LogInfo_Loaded] \<and> read_file w report_path = Inr medical_report
     \<and> OPENAI_API_KEY w \<noteq> None \<and> OPENAI_API_KEY w \<noteq> Some []"
  by (auto simp: load_report_def split: if_splits sum.splits)


lemma completion_event_not:
  "TeamInvoked c p pu \<noteq> completion_event x"
  "LogCritical_CannotProceed \<noteq> completion_event x"
  "ReportWritten path t \<noteq> completion_event x"
  by (cases x rule: completion_event.cases; simp)+

lemma fan_out_Stop:
  assumes "fan_out w medical_report = (ev, Stop out)"
  shows "(out = Stalled
          \<and> (\<exists>r\<in>set specialist_roles. specialist_task w medical_report r = Some Hangs))
         \<or> (\<exists>e. out = Crash e \<and> ev = [] \<and> ChatOpenAI_error w ''gpt-4o'' = Some e)"
proof (cases "ChatOpenAI_error w ''gpt-4o''")
  case (Some e)
  with assms show ?thesis by (simp add: fan_out_error)
next
  case None
  from assms have h: "list_ex (\<lambda>(r, c). c = Hangs) (futures w medical_report)"
    and o: "out = Stalled"
    by (auto simp: fan_out_eq [OF None] split: if_splits)
  from h obtain r where rc: "(r, Hangs) \<in> set (futures w medical_report)"
    by (auto simp: list_ex_iff)
  then have r: "r \<in> set specialist_roles" by (rule futures_role [OF None])
  with rc have "specialist_task w medical_report r = Some Hangs"
    using futures_lookup [OF None] by simp
  with r o show ?thesis by blast
qed

lemma fan_out_events:
  assumes "fan_out w medical_report = (ev, s)"
  shows "TeamInvoked c p pu \<notin> set ev" and "LogCritical_CannotProceed \<notin> set ev"
    and "ReportWritten path t \<notin> set ev"
proof -
  have "TeamInvoked c p pu \<notin> set ev \<and> LogCritical_CannotProceed \<notin> set ev
        \<and> ReportWritten path t \<notin> set ev"
  proof (cases "ChatOpenAI_error w ''gpt-4o''")
    case (Some e)
    with assms show ?thesis by (simp add: fan_out_error)
  next
    case None
    have ev: "ev = map AgentConstructed specialist_roles @ map TaskSubmitted specialist_roles
        @ [LogInfo_Dispatching 3]
        @ map completion_event (as_completed w (futures w medical_report))"
      using assms by (simp add: fan_out_eq [OF None])
    show ?thesis unfolding ev by (auto simp: completion_event_not)
  qed
  then show "TeamInvoked c p pu \<notin> set ev" and "LogCritical_CannotProceed \<notin> set ev"
    and "ReportWritten path t \<notin> set ev"
    by simp_all
qed

lemma team_init:
  "ChatOpenAI_error w ''gpt-4o'' = None \<Longrightarrow>
   MultidisciplinaryTeam_init w ''gpt-4o'' =
     Inr \<lparr>team_model = \<lparr>temperature = 0, model_name = ''gpt-4o''\<rparr>,
          team_prompt_template = Multidisciplinary_team_prompt\<rparr>"
  by (simp add: MultidisciplinaryTeam_init_def ChatOpenAI_init_def PROMPTS_def)

lemma synthesis_complete:
  assumes "length responses = length specialist_roles"
      and "ChatOpenAI_error w ''gpt-4o'' = None"
  shows "synthesis w responses =
     (let c = get responses ''Cardiologist'' ''N/A'';
          p = get responses ''Psychologist'' ''N/A'';
          pu = get responses ''Pulmonologist'' ''N/A''
      in case MultidisciplinaryTeam_run w
                \<lparr>team_model = \<lparr>temperature = 0, model_name = ''gpt-4o''\<rparr>,
                 team_prompt_template = Multidisciplinary_team_prompt\<rparr> c p pu of
           None \<Rightarrow> ([LogInfo_AllReceived, TeamInvoked c p pu], Stop Stalled)
         | Some (Inl e) \<Rightarrow>
             ([LogInfo_AllReceived, TeamInvoked c p pu, LogError_TeamFailed e], Stop (Exit 1))
         | Some (Inr final_analysis) \<Rightarrow>
             ([LogInfo_AllReceived, TeamInvoked c p pu], Continue final_analysis))"
  using assms by (simp add: synthesis_def team_init)

lemma main_after_fan_out:
  assumes "load_report w report_path = (ev0, Continue medical_report)"
      and "fan_out w medical_report = (ev1, Continue responses)"
  shows "\<exists>rest out.
           main w report_path output_dir =
             (LogInfo_Loaded # ev1 @ LogInfo_AllReceived
                # TeamInvoked (get responses ''Cardiologist'' ''N/A'')
                    (get responses ''Psychologist'' ''N/A'')
                    (get responses ''Pulmonologist'' ''N/A'') # rest, out)
         \<and> (\<forall>c p pu. TeamInvoked c p pu \<notin> set rest)
         \<and> LogCritical_CannotProceed \<notin> set rest
         \<and> (\<forall>x. out \<noteq> Crash x)"
proof -
  have ev0: "ev0 = [LogInfo_Loaded]" using load_report_Continue [OF assms(1)] by simp
  have len: "length responses = length specialist_roles" by (rule fan_out_Continue(3) [OF assms(2)])
  have ok: "ChatOpenAI_error w ''gpt-4o'' = None" by (rule fan_out_Continue(5) [OF assms(2)])
  show ?thesis
    using assms ev0
    by (simp add: main_def synthesis_complete [OF len ok] Let_def split: option.splits sum.splits)
qed

lemma main_cases:
  "(\<exists>ev out. load_report w report_path = (ev, Stop out) \<and> main w report_path output_dir = (ev, out))
   \<or> (\<exists>medical_report ev1 out.
         load_report w report_path = ([LogInfo_Loaded], Continue medical_report)
       \<and> fan_out w medical_report = (ev1, Stop out)
       \<and> main w report_path output_dir = (LogInfo_Loaded # ev1, out))
   \<or> (\<exists>medical_report ev1 responses.
         load_report w report_path = ([LogInfo_Loaded], Continue medical_report)
       \<and> fan_out w medical_report = (ev1, Continue responses))"
proof -
  obtain ev0 s0 where l: "load_report w report_path = (ev0, s0)"
    by (cases "load_report w report_path") blast
  show ?thesis
  proof (cases s0)
    case (Stop out)
    with l show ?thesis by (simp add: main_def)
  next
    case (Continue medical_report)
    with l have ev0: "ev0 = [LogInfo_Loaded]" using load_report_Continue by blast
    obtain ev1 s1 where f: "fan_out w medical_report = (ev1, s1)"
      by (cases "fan_out w medical_report") blast
    show ?thesis
    proof (cases s1)
      case (Stop out)
      with l f Continue ev0 show ?thesis by (simp add: main_def)
    next
      case (Continue responses)
      with l f \<open>s0 = Continue medical_report\<close> ev0 show ?thesis by simp
    qed
  qed
qed

lemma load_report_events:
  assumes "load_report w report_path = (ev, s)"
  shows "TeamInvoked c p pu \<notin> set ev" and "LogCritical_CannotProceed \<notin> set ev"
    and "ReportWritten path t \<notin> set ev"
  using assms by (auto simp: load_report_def split: if_splits sum.splits)

lemma guard_never_fires: "LogCritical_CannotProceed \<notin> set (fst (main w report_path output_dir))"
  using main_cases [of w report_path output_dir]
proof (elim disjE exE conjE)
  fix ev out
  assume "load_report w report_path = (ev, Stop out)" "main w report_path output_dir = (ev, out)"
  then show ?thesis using load_report_events(2) by simp
next
  fix medical_report ev1 out
  assume "fan_out w medical_report = (ev1, Stop out)"
    "main w report_path output_dir = (LogInfo_Loaded # ev1, out)"
  then show ?thesis using fan_out_events(2) by simp
next
  fix medical_report ev1 responses
  assume l: "load_report w report_path = ([LogInfo_Loaded], Continue medical_report)"
    and f: "fan_out w medical_report = (ev1, Continue responses)"
  from main_after_fan_out [OF l f, of output_dir] fan_out_events(2) [OF f]
  show ?thesis by auto
qed

lemmas run_simps =
  main_def load_report_def fan_out_eq fan_out_error futures_roles specialist_task_def init_roles
  init_error SpecialistAgent_run_def as_completed_def List.map_filter_simps specialist_roles_def
  synthesis_def team_init MultidisciplinaryTeam_run_def raw_three_def FinalAnalysis_parse_def
  HealthIssue_validate_def format_report_concat title_def issue_text_def tag_def basename_def
  path_join_def get_def placeholder_def

text \<open>
  C4. A run of the fan-out that returns, returns a response table with one entry
  for each of the three roles and no other or repeated key, each entry being what
  that role's settled task produced, after logging the completion of every role;
  and it does return whenever the task of every role settles. It stops without a
  table only when the task of some role never returns (the run stalls) or when
  the agents could not be built, so that no task was launched; the team is not
  invoked then. In a run of \<open>main\<close> that invokes the team, the whole trace of the
  fan-out, with the completion of every task, precedes the invocation, and the
  team receives the entries of that table.
\<close>

theorem fan_out_settles_every_role:
  "(\<forall>ev responses. fan_out w medical_report = (ev, Continue responses) \<longrightarrow>
        distinct (map fst responses) \<and> set (map fst responses) = set specialist_roles
      \<and> (\<forall>r\<in>set specialist_roles. \<exists>c s.
             specialist_task w medical_report r = Some c \<and> settled c = Some s
           \<and> map_of responses r = Some (entry_of s) \<and> completion_event (r, s) \<in> set ev))
   \<and> ((\<forall>r\<in>set specialist_roles. \<exists>c s.
           specialist_task w medical_report r = Some c \<and> settled c = Some s) \<longrightarrow>
        (\<exists>ev responses. fan_out w medical_report = (ev, Continue responses)))
   \<and> (\<forall>ev out. fan_out w medical_report = (ev, Stop out) \<longrightarrow>
        ((out = Stalled
          \<and> (\<exists>r\<in>set specialist_roles. specialist_task w medical_report r = Some Hangs))
         \<or> (\<exists>e. out = Crash e \<and> ev = []
               \<and> (\<forall>r. SpecialistAgent_init w r ''gpt-4o'' = Inl e)
               \<and> (\<forall>r. specialist_task w medical_report r = None)))
      \<and> (\<forall>c p pu. TeamInvoked c p pu \<notin> set ev))
   \<and> (\<forall>report_path output_dir ev out c p pu.
        main w report_path output_dir = (ev, out) \<and> TeamInvoked c p pu \<in> set ev \<longrightarrow>
        (\<exists>report ev1 responses rest.
            read_file w report_path = Inr report
          \<and> fan_out w report = (ev1, Continue responses)
          \<and> ev = LogInfo_Loaded # ev1 @ LogInfo_AllReceived # TeamInvoked c p pu # rest
          \<and> c = get responses ''Cardiologist'' ''N/A''
          \<and> p = get responses ''Psychologist'' ''N/A''
          \<and> pu = get responses ''Pulmonologist'' ''N/A''))"
proof (intro conjI allI impI)
  fix ev responses
  assume f: "fan_out w medical_report = (ev, Continue responses)"
  show "distinct (map fst responses)" by (rule fan_out_Continue(1) [OF f])
  show "set (map fst responses) = set specialist_roles" by (rule fan_out_Continue(2) [OF f])
  show "\<forall>r\<in>set specialist_roles. \<exists>c s.
             specialist_task w medical_report r = Some c \<and> settled c = Some s
           \<and> map_of responses r = Some (entry_of s) \<and> completion_event (r, s) \<in> set ev"
    using fan_out_Continue(4) [OF f] by blast
next
  assume a: "\<forall>r\<in>set specialist_roles. \<exists>c s.
           specialist_task w medical_report r = Some c \<and> settled c = Some s"
  obtain ev s where f: "fan_out w medical_report = (ev, s)"
    by (cases "fan_out w medical_report") blast
  show "\<exists>ev responses. fan_out w medical_report = (ev, Continue responses)"
  proof (cases s)
    case (Continue responses)
    with f show ?thesis by blast
  next
    case (Stop out)
    with f have "fan_out w medical_report = (ev, Stop out)" by simp
    from fan_out_Stop [OF this] have False
    proof (elim disjE conjE exE bexE)
      fix r assume "r \<in> set specialist_roles" "specialist_task w medical_report r = Some Hangs"
      with a show False by fastforce
    next
      fix e assume "ChatOpenAI_error w ''gpt-4o'' = Some e"
      then have "specialist_task w medical_report ''Cardiologist'' = None"
        by (rule specialist_task_error)
      moreover have "''Cardiologist'' \<in> set specialist_roles" by (simp add: specialist_roles_def)
      ultimately show False using a by fastforce
    qed
    then show ?thesis ..
  qed
next
  fix ev out
  assume f: "fan_out w medical_report = (ev, Stop out)"
  from fan_out_Stop [OF f]
  show "(out = Stalled
          \<and> (\<exists>r\<in>set specialist_roles. specialist_task w medical_report r = Some Hangs))
         \<or> (\<exists>e. out = Crash e \<and> ev = []
               \<and> (\<forall>r. SpecialistAgent_init w r ''gpt-4o'' = Inl e)
               \<and> (\<forall>r. specialist_task w medical_report r = None))"
    using init_error specialist_task_error by blast
  fix c p pu
  show "TeamInvoked c p pu \<notin> set ev" by (rule fan_out_events(1) [OF f])
next
  fix report_path output_dir ev out c p pu
  assume "main w report_path output_dir = (ev, out) \<and> TeamInvoked c p pu \<in> set ev"
  then have m: "main w report_path output_dir = (ev, out)" and t: "TeamInvoked c p pu \<in> set ev"
    by simp_all
  from main_cases [of w report_path output_dir]
  show "\<exists>report ev1 responses rest.
            read_file w report_path = Inr report
          \<and> fan_out w report = (ev1, Continue responses)
          \<and> ev = LogInfo_Loaded # ev1 @ LogInfo_AllReceived # TeamInvoked c p pu # rest
          \<and> c = get responses ''Cardiologist'' ''N/A''
          \<and> p = get responses ''Psychologist'' ''N/A''
          \<and> pu = get responses ''Pulmonologist'' ''N/A''"
  proof (elim disjE exE conjE)
    fix ev' out'
    assume "load_report w report_path = (ev', Stop out')"
      "main w report_path output_dir = (ev', out')"
    with m t show ?thesis using load_report_events(1) by auto
  next
    fix medical_report ev1 out'
    assume "fan_out w medical_report = (ev1, Stop out')"
      "main w report_path output_dir = (LogInfo_Loaded # ev1, out')"
    with m t show ?thesis using fan_out_events(1) by auto
  next
    fix report ev1 responses
    assume l: "load_report w report_path = ([LogInfo_Loaded], Continue report)"
      and f: "fan_out w report = (ev1, Continue responses)"
    from main_after_fan_out [OF l f, of output_dir] obtain rest out' where
      m': "main w report_path output_dir =
             (LogInfo_Loaded # ev1 @ LogInfo_AllReceived
                # TeamInvoked (get responses ''Cardiologist'' ''N/A'')
                    (get responses ''Psychologist'' ''N/A'')
                    (get responses ''Pulmonologist'' ''N/A'') # rest, out')"
      and r: "\<forall>c p pu. TeamInvoked c p pu \<notin> set rest"
      by blast
    from m m' have ev: "ev = LogInfo_Loaded # ev1 @ LogInfo_AllReceived
                # TeamInvoked (get responses ''Cardiologist'' ''N/A'')
                    (get responses ''Psychologist'' ''N/A'')
                    (get responses ''Pulmonologist'' ''N/A'') # rest"
      by simp
    from t r fan_out_events(1) [OF f] have
      "c = get responses ''Cardiologist'' ''N/A'' \<and> p = get responses ''Psychologist'' ''N/A''
       \<and> pu = get responses ''Pulmonologist'' ''N/A''"
      unfolding ev by auto
    moreover have "read_file w report_path = Inr report"
      using load_report_Continue [OF l] by simp
    ultimately show ?thesis using f ev by blast
  qed
qed

theorem fan_out_settles_every_role_witness:
  "fan_out w_ok ''chest pain'' =
     ([AgentConstructed ''Cardiologist'', AgentConstructed ''Psychologist'',
       AgentConstructed ''Pulmonologist'', TaskSubmitted ''Cardiologist'',
       TaskSubmitted ''Psychologist'', TaskSubmitted ''Pulmonologist'',
       LogInfo_Dispatching 3, LogInfo_Received ''Psychologist'',
       LogInfo_Received ''Cardiologist'', LogInfo_Received ''Pulmonologist''],
      Continue
        [(''Psychologist'', ''Psychologist report''),
         (''Cardiologist'', ''Cardiologist report''),
         (''Pulmonologist'', ''Pulmonologist report'')])
   \<and> set (map fst
        [(''Psychologist'', ''Psychologist report''),
         (''Cardiologist'', ''Cardiologist report''),
         (''Pulmonologist'', ''Pulmonologist report'')]) = set specialist_roles
   \<and> fan_out w_hang ''chest pain'' =
     ([AgentConstructed ''Cardiologist'', AgentConstructed ''Psychologist'',
       AgentConstructed ''Pulmonologist'', TaskSubmitted ''Cardiologist'',
       TaskSubmitted ''Psychologist'', TaskSubmitted ''Pulmonologist'',
       LogInfo_Dispatching 3, LogInfo_Received ''Psychologist'',
       LogInfo_Received ''Cardiologist''],
      Stop Stalled)
   \<and> (\<exists>r\<in>set specialist_roles. specialist_task w_hang ''chest pain'' r = Some Hangs)
   \<and> fan_out w_noclient ''chest pain'' = ([], Stop (Crash ValidationError))
   \<and> TeamInvoked ''Cardiologist report'' ''Psychologist report'' ''Pulmonologist report''
       \<in> set (fst (main w_ok ''reports/r.txt'' ''results''))
   \<and> (\<exists>report ev1 responses.
         read_file w_ok ''reports/r.txt'' = Inr report
       \<and> fan_out w_ok report = (ev1, Continue responses)
       \<and> ''Cardiologist report'' = get responses ''Cardiologist'' ''N/A'')"
proof -
  let ?ev = "[AgentConstructed ''Cardiologist'', AgentConstructed ''Psychologist'',
       AgentConstructed ''Pulmonologist'', TaskSubmitted ''Cardiologist'',
       TaskSubmitted ''Psychologist'', TaskSubmitted ''Pulmonologist'',
       LogInfo_Dispatching 3, LogInfo_Received ''Psychologist'',
       LogInfo_Received ''Cardiologist'', LogInfo_Received ''Pulmonologist'']"
  let ?resp = "[(''Psychologist'', ''Psychologist report''),
         (''Cardiologist'', ''Cardiologist report''),
         (''Pulmonologist'', ''Pulmonologist report'')]"
  let ?evh = "[AgentConstructed ''Cardiologist'', AgentConstructed ''Psychologist'',
       AgentConstructed ''Pulmonologist'', TaskSubmitted ''Cardiologist'',
       TaskSubmitted ''Psychologist'', TaskSubmitted ''Pulmonologist'',
       LogInfo_Dispatching 3, LogInfo_Received ''Psychologist'',
       LogInfo_Received ''Cardiologist'']"
  have ok: "fan_out w_ok ''chest pain'' = (?ev, Continue ?resp)"
    by (simp add: run_simps w_ok_def)
  have hang: "fan_out w_hang ''chest pain'' = (?evh, Stop Stalled)"
    by (simp add: run_simps w_hang_def w_ok_def)
  have crash: "fan_out w_noclient ''chest pain'' = ([], Stop (Crash ValidationError))"
    by (simp add: run_simps w_noclient_def w_ok_def)
  obtain ev out where m: "main w_ok ''reports/r.txt'' ''results'' = (ev, out)"
    by (cases "main w_ok ''reports/r.txt'' ''results''") blast
  have t: "TeamInvoked ''Cardiologist report'' ''Psychologist report'' ''Pulmonologist report''
             \<in> set (fst (main w_ok ''reports/r.txt'' ''results''))"
    by (simp add: run_simps w_ok_def)
  from t m have t': "TeamInvoked ''Cardiologist report'' ''Psychologist report''
                       ''Pulmonologist report'' \<in> set ev"
    by simp
  note thm_ok = fan_out_settles_every_role [of w_ok "''chest pain''"]
  note thm_hang = fan_out_settles_every_role [of w_hang "''chest pain''"]
  note a = thm_ok [THEN conjunct1, rule_format, OF ok]
  note b = thm_hang [THEN conjunct2, THEN conjunct2, THEN conjunct1, rule_format, OF hang]
  note c = thm_ok [THEN conjunct2, THEN conjunct2, THEN conjunct2, rule_format,
                   OF conjI [OF m t']]
  have 1: "set (map fst ?resp) = set specialist_roles"
    by (rule a [THEN conjunct2, THEN conjunct1])
  have 2: "\<exists>r\<in>set specialist_roles. specialist_task w_hang ''chest pain'' r = Some Hangs"
    using b [THEN conjunct1] by blast
  from c have 3: "\<exists>report ev1 responses.
         read_file w_ok ''reports/r.txt'' = Inr report
       \<and> fan_out w_ok report = (ev1, Continue responses)
       \<and> ''Cardiologist report'' = get responses ''Cardiologist'' ''N/A''"
    by blast
  from ok hang crash 1 2 t 3 show ?thesis by (intro conjI)
qed



section \<open>A failed specialist\<close>

text \<open>
  C1. The run in which the cardiologist's call raises does not stop before the
  synthesis: the handler of the loop stores the placeholder under the role, the
  table has three entries, the test \<open>len(responses) < len(specialist_roles)\<close> is
  false, the team is invoked with the placeholder as the cardiologist's report and
  the run finishes normally with a written report. (The test is false in every
  run: \<open>guard_never_fires\<close>.)
\<close>

theorem failed_specialist_run_reaches_synthesis:
  "main w_fail ''reports/r.txt'' ''results'' =
     ([LogInfo_Loaded, AgentConstructed ''Cardiologist'', AgentConstructed ''Psychologist'',
       AgentConstructed ''Pulmonologist'', TaskSubmitted ''Cardiologist'',
       TaskSubmitted ''Psychologist'', TaskSubmitted ''Pulmonologist'', LogInfo_Dispatching 3,
       LogInfo_Received ''Psychologist'', LogError_AgentFailed ''Cardiologist'' ''boom'',
       LogInfo_Received ''Pulmonologist'', LogInfo_AllReceived,
       TeamInvoked ''AGENT FAILED TO PRODUCE REPORT. REASON: boom'' ''Psychologist report''
         ''Pulmonologist report'',
       ReportWritten ''results/analysis_r.txt'' (format_report fa_three),
       LogInfo_Complete],
      Finished)"
  by (simp add: run_simps w_fail_def w_ok_def fa_three_def)





section \<open>The written report\<close>

lemma filter_first:
  assumes "i < length xs" and "P (xs ! i)" and "\<forall>j<i. \<not> P (xs ! j)"
  shows "filter P xs = xs ! i # filter P (drop (Suc i) xs)"
proof -
  have "xs = take i xs @ xs ! i # drop (Suc i) xs"
    using assms(1) by (simp add: id_take_nth_drop)
  then have "filter P xs = filter P (take i xs) @ filter P (xs ! i # drop (Suc i) xs)"
    by (metis filter_append)
  moreover have "filter P (take i xs) = []"
    using assms(1,3) by (auto simp: filter_empty_conv in_set_conv_nth)
  ultimately show ?thesis using assms(2) by simp
qed

lemma synthesis_events:
  assumes "synthesis w responses = (ev, s)"
  shows "ReportWritten path t \<notin> set ev"
  using assms
  by (auto simp: synthesis_def Let_def split: if_splits sum.splits option.splits)

lemma synthesis_Continue:
  assumes "synthesis w responses = (ev, Continue fa)"
  shows "\<exists>team c p pu. MultidisciplinaryTeam_run w team c p pu = Some (Inr fa)"
  using assms
  by (auto simp: synthesis_def Let_def split: if_splits sum.splits option.splits)

lemma main_writes:
  assumes "run_analysis w report_path = Some fa"
  shows "\<exists>ev. main w report_path output_dir =
                (ev @ [ReportWritten (path_join output_dir (''analysis_'' @ basename report_path))
                         (format_report fa), LogInfo_Complete], Finished)
              \<and> (\<forall>path t. ReportWritten path t \<notin> set ev)"
proof -
  from assms obtain ev0 medical_report ev1 responses ev2 where
    l: "load_report w report_path = (ev0, Continue medical_report)"
    and f: "fan_out w medical_report = (ev1, Continue responses)"
    and s: "synthesis w responses = (ev2, Continue fa)"
    by (auto simp: run_analysis_def split: prod.splits step.splits)
  have m: "main w report_path output_dir =
             ((ev0 @ ev1 @ ev2)
                @ [ReportWritten (path_join output_dir (''analysis_'' @ basename report_path))
                     (format_report fa), LogInfo_Complete], Finished)"
    using l f s by (simp add: main_def Let_def)
  have "\<forall>path t. ReportWritten path t \<notin> set (ev0 @ ev1 @ ev2)"
    using load_report_events(3) [OF l] fan_out_events(3) [OF f] synthesis_events [OF s]
    by simp
  with m show ?thesis by blast
qed

lemma main_written_analysis:
  assumes "main w report_path output_dir = (ev, out)" and "ReportWritten path t \<in> set ev"
  shows "\<exists>fa. run_analysis w report_path = Some fa \<and> t = format_report fa"
proof (cases "run_analysis w report_path")
  case (Some fa)
  from main_writes [OF Some, of output_dir] assms show ?thesis
    using Some by auto
next
  case None
  obtain ev0 s0 where l: "load_report w report_path = (ev0, s0)"
    by (cases "load_report w report_path") blast
  note n0 = load_report_events(3) [OF l, of path t]
  show ?thesis
  proof (cases s0)
    case (Stop o0)
    with l assms(1) have "ev = ev0" by (simp add: main_def)
    with n0 assms(2) show ?thesis by simp
  next
    case c0: (Continue medical_report)
    obtain ev1 s1 where f: "fan_out w medical_report = (ev1, s1)"
      by (cases "fan_out w medical_report") blast
    note n1 = fan_out_events(3) [OF f, of path t]
    show ?thesis
    proof (cases s1)
      case (Stop o1)
      with l c0 f assms(1) have "ev = ev0 @ ev1" by (simp add: main_def)
      with n0 n1 assms(2) show ?thesis by simp
    next
      case c1: (Continue responses)
      obtain ev2 s2 where s: "synthesis w responses = (ev2, s2)"
        by (cases "synthesis w responses") blast
      note n2 = synthesis_events [OF s, of path t]
      show ?thesis
      proof (cases s2)
        case (Stop o2)
        with l c0 f c1 s assms(1) have "ev = ev0 @ ev1 @ ev2" by (simp add: main_def)
        with n0 n1 n2 assms(2) show ?thesis by simp
      next
        case c2: (Continue fa)
        with l c0 f c1 s have "run_analysis w report_path = Some fa"
          by (simp add: run_analysis_def)
        with None show ?thesis by simp
      qed
    qed
  qed
qed

text \<open>
  C6. The formatter is a function of the \<open>FinalAnalysis\<close> alone, and so is the text
  that a run writes. The first primary entry of the input, at whatever index it
  stands, heads the report: after the title come its \<open>Primary Diagnosis\<close> header
  and its rationale line, then the blocks of the later primary entries and of the
  other entries in their original order. A run whose team returns the analysis
  \<open>fa\<close> finishes by writing exactly one report, with text \<open>format_report fa\<close>;
  a run writes nothing else as a report; so two runs, in whatever worlds and on
  whatever input, whose teams return the same analysis write the same text, byte
  for byte.
\<close>

theorem format_report_primary_first:
  "(\<forall>i<length (analysis fa).
       is_primary (analysis fa ! i) \<and> (\<forall>j<i. \<not> is_primary (analysis fa ! j)) \<longrightarrow>
       format_report fa =
         title
         @ ''**Primary Diagnosis: '' @ diagnosis (analysis fa ! i) @ ''**'' @ [CHR 0x0A]
         @ ''   - **Rationale:** '' @ rationale (analysis fa ! i) @ [CHR 0x0A, CHR 0x0A]
         @ concat (map
             (\<lambda>issue. ''**'' @ tag issue @ '': '' @ diagnosis issue @ ''**'' @ [CHR 0x0A]
                       @ ''   - **Rationale:** '' @ rationale issue @ [CHR 0x0A, CHR 0x0A])
             (filter is_primary (drop (Suc i) (analysis fa))
              @ filter (\<lambda>x. \<not> is_primary x) (analysis fa))))
   \<and> (\<forall>w report_path output_dir fa'.
        run_analysis w report_path = Some fa' \<longrightarrow>
        (\<exists>ev. main w report_path output_dir =
                (ev @ [ReportWritten (path_join output_dir (''analysis_'' @ basename report_path))
                         (format_report fa'), LogInfo_Complete], Finished)
              \<and> (\<forall>path t. ReportWritten path t \<notin> set ev)))
   \<and> (\<forall>w report_path output_dir ev out path t.
        main w report_path output_dir = (ev, out) \<and> ReportWritten path t \<in> set ev \<longrightarrow>
        (\<exists>fa'. run_analysis w report_path = Some fa' \<and> t = format_report fa'))
   \<and> (\<forall>w1 report_path1 output_dir1 path1 t1 w2 report_path2 output_dir2 path2 t2.
        run_analysis w1 report_path1 = run_analysis w2 report_path2
        \<and> ReportWritten path1 t1 \<in> set (fst (main w1 report_path1 output_dir1))
        \<and> ReportWritten path2 t2 \<in> set (fst (main w2 report_path2 output_dir2)) \<longrightarrow>
        t1 = t2)"
proof (intro conjI allI impI)
  fix i assume i: "i < length (analysis fa)"
    and p: "is_primary (analysis fa ! i) \<and> (\<forall>j<i. \<not> is_primary (analysis fa ! j))"
  then have "filter is_primary (analysis fa)
             = analysis fa ! i # filter is_primary (drop (Suc i) (analysis fa))"
    by (intro filter_first) simp_all
  then have ft: "format_report fa =
         title @ issue_text (analysis fa ! i)
         @ concat (map issue_text
             (filter is_primary (drop (Suc i) (analysis fa))
              @ filter (\<lambda>x. \<not> is_primary x) (analysis fa)))"
    by (simp add: format_report_concat)
  show "format_report fa =
         title
         @ ''**Primary Diagnosis: '' @ diagnosis (analysis fa ! i) @ ''**'' @ [CHR 0x0A]
         @ ''   - **Rationale:** '' @ rationale (analysis fa ! i) @ [CHR 0x0A, CHR 0x0A]
         @ concat (map
             (\<lambda>issue. ''**'' @ tag issue @ '': '' @ diagnosis issue @ ''**'' @ [CHR 0x0A]
                       @ ''   - **Rationale:** '' @ rationale issue @ [CHR 0x0A, CHR 0x0A])
             (filter is_primary (drop (Suc i) (analysis fa))
              @ filter (\<lambda>x. \<not> is_primary x) (analysis fa)))"
    unfolding ft using p by (simp add: issue_text_def [abs_def] tag_def)
next
  fix w report_path output_dir fa'
  assume "run_analysis w report_path = Some fa'"
  then show "\<exists>ev. main w report_path output_dir =
                (ev @ [ReportWritten (path_join output_dir (''analysis_'' @ basename report_path))
                         (format_report fa'), LogInfo_Complete], Finished)
              \<and> (\<forall>path t. ReportWritten path t \<notin> set ev)"
    by (rule main_writes)
next
  fix w report_path output_dir ev out path t
  assume "main w report_path output_dir = (ev, out) \<and> ReportWritten path t \<in> set ev"
  then show "\<exists>fa'. run_analysis w report_path = Some fa' \<and> t = format_report fa'"
    using main_written_analysis by blast
next
  fix w1 report_path1 output_dir1 path1 t1 w2 report_path2 output_dir2 path2 t2
  assume a: "run_analysis w1 report_path1 = run_analysis w2 report_path2
        \<and> ReportWritten path1 t1 \<in> set (fst (main w1 report_path1 output_dir1))
        \<and> ReportWritten path2 t2 \<in> set (fst (main w2 report_path2 output_dir2))"
  obtain ev1 out1 where m1: "main w1 report_path1 output_dir1 = (ev1, out1)"
    by (cases "main w1 report_path1 output_dir1") blast
  obtain ev2 out2 where m2: "main w2 report_path2 output_dir2 = (ev2, out2)"
    by (cases "main w2 report_path2 output_dir2") blast
  from a m1 have "ReportWritten path1 t1 \<in> set ev1" by simp
  from main_written_analysis [OF m1 this] obtain fa1 where
    1: "run_analysis w1 report_path1 = Some fa1" "t1 = format_report fa1" by blast
  from a m2 have "ReportWritten path2 t2 \<in> set ev2" by simp
  from main_written_analysis [OF m2 this] obtain fa2 where
    2: "run_analysis w2 report_path2 = Some fa2" "t2 = format_report fa2" by blast
  from a 1 2 show "t1 = t2" by simp
qed

lemma run_analysis_w_ok: "run_analysis w_ok ''reports/r.txt'' = Some fa_three"
  by (simp add: run_analysis_def load_report_def fan_out_eq futures_roles as_completed_def
        List.map_filter_simps synthesis_def team_init specialist_roles_def
        MultidisciplinaryTeam_run_def raw_three_def FinalAnalysis_parse_def
        HealthIssue_validate_def get_def fa_three_def w_ok_def)

lemma run_analysis_w_fail: "run_analysis w_fail ''other/s.txt'' = Some fa_three"
  by (simp add: run_analysis_def load_report_def fan_out_eq futures_roles as_completed_def
        List.map_filter_simps synthesis_def team_init specialist_roles_def
        MultidisciplinaryTeam_run_def raw_three_def FinalAnalysis_parse_def
        HealthIssue_validate_def get_def placeholder_def fa_three_def w_fail_def w_ok_def)

theorem format_report_primary_first_witness:
  "(1::nat) < length (analysis fa_three) \<and> is_primary (analysis fa_three ! 1)
   \<and> \<not> is_primary (analysis fa_three ! 0)
   \<and> format_report fa_three =
         title
         @ ''**Primary Diagnosis: Panic disorder**'' @ [CHR 0x0A]
         @ ''   - **Rationale:** normal workup'' @ [CHR 0x0A, CHR 0x0A]
         @ ''**Differential Diagnosis: Asthma**'' @ [CHR 0x0A]
         @ ''   - **Rationale:** wheezing'' @ [CHR 0x0A, CHR 0x0A]
         @ ''**Differential Diagnosis: GERD**'' @ [CHR 0x0A]
         @ ''   - **Rationale:** chest pain'' @ [CHR 0x0A, CHR 0x0A]
   \<and> run_analysis w_ok ''reports/r.txt'' = Some fa_three
   \<and> run_analysis w_fail ''other/s.txt'' = Some fa_three
   \<and> (\<exists>ev. main w_ok ''reports/r.txt'' ''results'' =
               (ev @ [ReportWritten ''results/analysis_r.txt'' (format_report fa_three),
                      LogInfo_Complete], Finished))
   \<and> (\<exists>ev. main w_fail ''other/s.txt'' ''out/'' =
               (ev @ [ReportWritten ''out/analysis_s.txt'' (format_report fa_three),
                      LogInfo_Complete], Finished))"
proof -
  note pf = format_report_primary_first [of fa_three]
  have a: "(1::nat) < length (analysis fa_three)" by (simp add: fa_three_def)
  have b: "is_primary (analysis fa_three ! 1) \<and> (\<forall>j<1. \<not> is_primary (analysis fa_three ! j))"
    by (simp add: fa_three_def)
  have c: "\<not> is_primary (analysis fa_three ! 0)" by (simp add: fa_three_def)
  from pf [THEN conjunct1, rule_format, OF a b]
  have 1: "format_report fa_three =
         title
         @ ''**Primary Diagnosis: Panic disorder**'' @ [CHR 0x0A]
         @ ''   - **Rationale:** normal workup'' @ [CHR 0x0A, CHR 0x0A]
         @ ''**Differential Diagnosis: Asthma**'' @ [CHR 0x0A]
         @ ''   - **Rationale:** wheezing'' @ [CHR 0x0A, CHR 0x0A]
         @ ''**Differential Diagnosis: GERD**'' @ [CHR 0x0A]
         @ ''   - **Rationale:** chest pain'' @ [CHR 0x0A, CHR 0x0A]"
    by (simp add: fa_three_def tag_def)
  from pf [THEN conjunct2, THEN conjunct1, rule_format, OF run_analysis_w_ok, of "''results''"]
  have 2: "\<exists>ev. main w_ok ''reports/r.txt'' ''results'' =
               (ev @ [ReportWritten ''results/analysis_r.txt'' (format_report fa_three),
                      LogInfo_Complete], Finished)"
    by (auto simp: path_join_def basename_def)
  from pf [THEN conjunct2, THEN conjunct1, rule_format, OF run_analysis_w_fail, of "''out/''"]
  have 3: "\<exists>ev. main w_fail ''other/s.txt'' ''out/'' =
               (ev @ [ReportWritten ''out/analysis_s.txt'' (format_report fa_three),
                      LogInfo_Complete], Finished)"
    by (auto simp: path_join_def basename_def)
  from a b c 1 2 3 run_analysis_w_ok run_analysis_w_fail show ?thesis by simp
qed

end
